theory Spec2Isabelle
  imports Complex_Main
begin

section \<open>Python values\<close>

text \<open>
  The backend is dynamically typed Python. The values that flow through the functions
  verified here (rows of the transaction store, the decoded JSON reply of the
  classification oracle, the tuples built by the statement extractors) are modelled by
  one datatype of Python values. A Python \<open>float\<close> is modelled by the rational number
  it denotes: comparison and rounding are exact, and the IEEE specials (infinities,
  NaN) and binary rounding are outside the model. A \<open>str\<close> is a \<open>string\<close>; the three
  non-ASCII characters the source mentions are given reserved characters below.
\<close>

datatype pyerr = TypeError | ValueError | IndexError | AttributeError | StoreError

datatype pyval =
    PNone
  | PBool bool
  | PInt int
  | PFloat rat
  | PStr string
  | PList "pyval list"
  | PDict "(string \<times> pyval) list"

type_synonym pydict = "(string \<times> pyval) list"

text \<open>\<open>d.get(k, default)\<close> on a dict with string keys.\<close>

definition dict_get :: "pydict \<Rightarrow> string \<Rightarrow> pyval \<Rightarrow> pyval" where
  "dict_get d k dflt = (case map_of d k of None \<Rightarrow> dflt | Some v \<Rightarrow> v)"

text \<open>\<open>bool(x)\<close>: Python truthiness.\<close>

fun py_bool :: "pyval \<Rightarrow> bool" where
  "py_bool PNone = False"
| "py_bool (PBool b) = b"
| "py_bool (PInt i) = (i \<noteq> 0)"
| "py_bool (PFloat x) = (x \<noteq> 0)"
| "py_bool (PStr s) = (s \<noteq> [])"
| "py_bool (PList xs) = (xs \<noteq> [])"
| "py_bool (PDict kvs) = (kvs \<noteq> [])"

subsection \<open>Characters and text\<close>

definition is_digit :: "char \<Rightarrow> bool" where
  "is_digit c = (c \<in> set ''0123456789'')"

text \<open>Whitespace as \<open>str.strip\<close>, \<open>str.split\<close> and the regex class \<open>\s\<close> see it (ASCII part).\<close>

definition spaces :: "char list" where
  "spaces = [CHR '' '', CHR 0x09, CHR 0x0A, CHR 0x0B, CHR 0x0C, CHR 0x0D,
             CHR 0x1C, CHR 0x1D, CHR 0x1E, CHR 0x1F]"

definition is_space :: "char \<Rightarrow> bool" where
  "is_space c = (c \<in> set spaces)"

definition strip :: "string \<Rightarrow> string" where
  "strip s = rev (dropWhile is_space (rev (dropWhile is_space s)))"

definition digit_val :: "char \<Rightarrow> nat" where
  "digit_val c = of_char c - 48"

definition digits_val :: "string \<Rightarrow> nat" where
  "digits_val ds = foldl (\<lambda>a c. 10 * a + digit_val c) 0 ds"

text \<open>
  \<open>float(s)\<close> on a string: surrounding whitespace is ignored, then an optional sign and
  a decimal numeral with at least one digit (\<open>12\<close>, \<open>12.\<close>, \<open>12.5\<close>, \<open>.5\<close>). Anything else
  is a \<open>ValueError\<close> (\<open>None\<close> here). Exponents, digit-group underscores and the words
  \<open>inf\<close> and \<open>nan\<close>, which CPython also accepts, are not covered.
\<close>

definition float_of_str :: "string \<Rightarrow> rat option" where
  "float_of_str s0 =
     (let s = strip s0;
          neg = (s \<noteq> [] \<and> hd s = CHR ''-'');
          u = (if s \<noteq> [] \<and> (hd s = CHR ''-'' \<or> hd s = CHR ''+'') then tl s else s);
          ip = takeWhile is_digit u;
          r1 = dropWhile is_digit u;
          pt = (r1 \<noteq> [] \<and> hd r1 = CHR ''.'');
          fp = (if pt then takeWhile is_digit (tl r1) else []);
          r2 = (if pt then dropWhile is_digit (tl r1) else r1)
      in if r2 \<noteq> [] \<or> (ip = [] \<and> fp = []) then None
         else Some ((if neg then - 1 else 1) *
                    (of_nat (digits_val ip) + of_nat (digits_val fp) / 10 ^ length fp)))"

text \<open>\<open>float(x)\<close> on any value.\<close>

fun py_float :: "pyval \<Rightarrow> pyerr + rat" where
  "py_float PNone = Inl TypeError"
| "py_float (PBool b) = Inr (if b then 1 else 0)"
| "py_float (PInt i) = Inr (of_int i)"
| "py_float (PFloat x) = Inr x"
| "py_float (PStr s) = (case float_of_str s of None \<Rightarrow> Inl ValueError | Some x \<Rightarrow> Inr x)"
| "py_float (PList xs) = Inl TypeError"
| "py_float (PDict kvs) = Inl TypeError"

text \<open>A value that \<open>float()\<close> accepts.\<close>

definition float_ok :: "pyval \<Rightarrow> bool" where
  "float_ok v = (case py_float v of Inl e \<Rightarrow> False | Inr c \<Rightarrow> True)"

text \<open>Dictionary keys: lists and dicts are unhashable; numbers and booleans compare by value.\<close>

fun hashable :: "pyval \<Rightarrow> bool" where
  "hashable (PList xs) = False"
| "hashable (PDict kvs) = False"
| "hashable v = True"

fun num_of :: "pyval \<Rightarrow> rat option" where
  "num_of (PBool b) = Some (if b then 1 else 0)"
| "num_of (PInt i) = Some (of_int i)"
| "num_of (PFloat x) = Some x"
| "num_of v = None"

definition key_eq :: "pyval \<Rightarrow> pyval \<Rightarrow> bool" where
  "key_eq a b =
     (case (num_of a, num_of b) of
        (Some x, Some y) \<Rightarrow> x = y
      | (None, None) \<Rightarrow> a = b
      | _ \<Rightarrow> False)"

section \<open>The classification orchestrator (\<open>ai_agent.py\<close>)\<close>

subsection \<open>Data\<close>

text \<open>A row of the \<open>transactions\<close> table, with the columns \<open>fetch_unverified\<close> selects.\<close>

record txn =
  tx_id :: pyval
  tx_date :: pyval
  tx_transaction_details :: pyval
  tx_transaction_type :: pyval
  tx_amount :: pyval
  tx_statement_type :: pyval
  tx_verification_status :: pyval

text \<open>An entry of the merged result list that \<open>tag_with_gemini\<close> builds.\<close>

record merged =
  m_id :: pyval
  m_date :: pyval
  m_transaction_details :: pyval
  m_amount :: pyval
  m_transaction_type :: pyval
  category :: pyval
  tags :: "pyval list"
  confidence :: rat
  verification_status :: string
  requires_human_verification :: bool

subsection \<open>\<open>tag_with_gemini\<close>: merging the oracle's reply\<close>

text \<open>
  \<open>results_map = {o.get("id"): o for o in out if isinstance(o, dict) and "id" in o}\<close>.
  A later entry with an equal key replaces an earlier one, so the map is kept with the
  latest entry first. An unhashable id raises \<open>TypeError\<close>.
\<close>

fun build_results_map :: "pyval list \<Rightarrow> (pyval \<times> pydict) list \<Rightarrow> pyerr + (pyval \<times> pydict) list" where
  "build_results_map [] acc = Inr acc"
| "build_results_map (PDict d # os) acc =
     (case map_of d ''id'' of
        None \<Rightarrow> build_results_map os acc
      | Some k \<Rightarrow> if hashable k then build_results_map os ((k, d) # acc) else Inl TypeError)"
| "build_results_map (v # os) acc = build_results_map os acc"

text \<open>
  Iterating the oracle's reply \<open>out\<close>: a list gives its entries; a dict gives its keys and
  a string its characters (strings, never dicts); any other value is not iterable.
\<close>

fun iter_out :: "pyval \<Rightarrow> pyerr + pyval list" where
  "iter_out (PList xs) = Inr xs"
| "iter_out (PDict kvs) = Inr (map (\<lambda>kv. PStr (fst kv)) kvs)"
| "iter_out (PStr s) = Inr (map (\<lambda>c. PStr [c]) s)"
| "iter_out v = Inl TypeError"

text \<open>\<open>results_map.get(rid, None)\<close>.\<close>

definition results_map_get :: "(pyval \<times> pydict) list \<Rightarrow> pyval \<Rightarrow> pyerr + pydict option" where
  "results_map_get rm rid =
     (if hashable rid then Inr (map_option snd (find (\<lambda>kv. key_eq (fst kv) rid) rm))
      else Inl TypeError)"

text \<open>The entry for a transaction without a usable oracle result.\<close>

definition missing_result :: "txn \<Rightarrow> merged" where
  "missing_result t =
     \<lparr> m_id = tx_id t, m_date = tx_date t,
       m_transaction_details = tx_transaction_details t,
       m_amount = tx_amount t, m_transaction_type = tx_transaction_type t,
       category = PStr ''Other'', tags = [], confidence = 0,
       verification_status = ''required_human_verification'',
       requires_human_verification = True \<rparr>"

text \<open>The entry for a transaction whose id has the oracle result \<open>ores\<close> (\<open>o\<close> in the source).\<close>

definition matched_result :: "rat \<Rightarrow> txn \<Rightarrow> pydict \<Rightarrow> pyerr + merged" where
  "matched_result threshold t ores =
     (case py_float (dict_get ores ''confidence'' (PFloat 0)) of
        Inl e \<Rightarrow> Inl e
      | Inr c \<Rightarrow>
          (let bt = dict_get ores ''behavioral_tags'' (dict_get ores ''tags'' (PList []));
               req_human = py_bool (dict_get ores ''requires_human_verification'' (PBool False));
               v_status = (if c \<ge> threshold \<and> \<not> req_human then ''ai_verified''
                           else ''required_human_verification'')
           in Inr \<lparr> m_id = tx_id t, m_date = tx_date t,
                    m_transaction_details = tx_transaction_details t,
                    m_amount = tx_amount t, m_transaction_type = tx_transaction_type t,
                    category = dict_get ores ''category'' (PStr ''Other''),
                    tags = (case bt of PList xs \<Rightarrow> xs | _ \<Rightarrow> []),
                    confidence = c,
                    verification_status = v_status,
                    requires_human_verification = (v_status = ''required_human_verification'') \<rparr>))"

text \<open>One iteration of the loop over the batch.\<close>

definition merge_one :: "rat \<Rightarrow> (pyval \<times> pydict) list \<Rightarrow> txn \<Rightarrow> pyerr + merged" where
  "merge_one threshold rm t =
     (case results_map_get rm (tx_id t) of
        Inl e \<Rightarrow> Inl e
      | Inr None \<Rightarrow> Inr (missing_result t)
      | Inr (Some ores) \<Rightarrow>
          if ores = [] then Inr (missing_result t) else matched_result threshold t ores)"

fun merge_loop :: "rat \<Rightarrow> (pyval \<times> pydict) list \<Rightarrow> txn list \<Rightarrow> pyerr + merged list" where
  "merge_loop threshold rm [] = Inr []"
| "merge_loop threshold rm (t # ts) =
     (case merge_one threshold rm t of
        Inl e \<Rightarrow> Inl e
      | Inr m \<Rightarrow> (case merge_loop threshold rm ts of Inl e \<Rightarrow> Inl e | Inr ms \<Rightarrow> Inr (m # ms)))"

text \<open>
  \<open>tag_with_gemini\<close>, as a function of the threshold, the fetched batch and the oracle's
  reply \<open>out = call_gemini(prompt)\<close>; the result is the new \<open>state["results"]\<close>, or the
  exception that escapes. With an empty batch the oracle is not consulted.
\<close>

definition tag_with_gemini :: "rat \<Rightarrow> txn list \<Rightarrow> pyval \<Rightarrow> pyerr + merged list" where
  "tag_with_gemini threshold txs out =
     (if txs = [] then Inr []
      else case iter_out out of
             Inl e \<Rightarrow> Inl e
           | Inr os \<Rightarrow> (case build_results_map os [] of
                          Inl e \<Rightarrow> Inl e
                        | Inr rm \<Rightarrow> merge_loop threshold rm txs))"

subsection \<open>\<open>router\<close>\<close>

text \<open>
  \<open>router\<close> writes \<open>state["path"]\<close> (\<open>A\<close> or \<open>B\<close>) and returns the name of the next node:
  \<open>behavioral_analysis\<close> (the BehavioralAnalysis branch) or \<open>mark_needs_verification\<close>
  (the FlagForReview branch).
\<close>

definition all_high :: "rat \<Rightarrow> merged list \<Rightarrow> bool" where
  "all_high th res =
     list_all (\<lambda>r. confidence r \<ge> th \<and> verification_status r = ''ai_verified'') res"

definition router_path :: "rat \<Rightarrow> merged list \<Rightarrow> string" where
  "router_path th res = (if res = [] then ''B'' else if all_high th res then ''A'' else ''B'')"

definition router :: "rat \<Rightarrow> merged list \<Rightarrow> string" where
  "router th res =
     (if res = [] then ''mark_needs_verification''
      else if router_path th res = ''A'' then ''behavioral_analysis''
      else ''mark_needs_verification'')"

subsection \<open>The store\<close>

text \<open>
  The Supabase client is an external collaborator. The model keeps what the orchestrator
  reads (the \<open>transactions\<close> rows with their owner, the \<open>categories\<close> names with their
  owner), the update requests that were executed, in order, and how the store behaves:
  whether a read raises, and on which update requests \<open>execute()\<close> raises.
\<close>

record update_req =
  u_id :: pyval
  u_category :: pyval
  u_tags :: "pyval list"
  u_verification_status :: string

record supabase =
  tx_table :: "(string \<times> txn) list"
  cat_table :: "(string \<times> string) list"
  cat_select_raises :: bool
  tx_select_raises :: bool
  update_raises :: "update_req \<Rightarrow> bool"
  updates :: "update_req list"

definition DEFAULT_CATEGORIES :: "string list" where
  "DEFAULT_CATEGORIES =
     [''Groceries'', ''Restaurants'', ''Transport'', ''Utilities'', ''Rent'',
      ''Entertainment'', ''Shopping'', ''Medical'', ''Fees'', ''Subscriptions'',
      ''Transfer'', ''Income'', ''Other'']"

text \<open>\<open>if user_id:\<close> on an optional string.\<close>

definition truthy_str :: "string option \<Rightarrow> bool" where
  "truthy_str u = (case u of None \<Rightarrow> False | Some s \<Rightarrow> s \<noteq> [])"

subsection \<open>\<open>fetch_unverified\<close>\<close>

definition fetch_categories :: "supabase \<Rightarrow> string option \<Rightarrow> string list" where
  "fetch_categories s user_id =
     (if truthy_str user_id then
        (if cat_select_raises s then DEFAULT_CATEGORIES
         else (let cats = map snd (filter (\<lambda>r. fst r = the user_id) (cat_table s))
               in if cats = [] then DEFAULT_CATEGORIES else cats))
      else DEFAULT_CATEGORIES)"

text \<open>The result is the pair of \<open>state["categories"]\<close> and \<open>state["transactions"]\<close>.\<close>

definition fetch_unverified ::
  "supabase \<Rightarrow> nat \<Rightarrow> string option \<Rightarrow> pyerr + (string list \<times> txn list)" where
  "fetch_unverified s limit user_id =
     (let cats = fetch_categories s user_id;
          q1 = filter (\<lambda>r. tx_verification_status (snd r) = PStr ''unverified'') (tx_table s);
          q2 = (if truthy_str user_id then filter (\<lambda>r. fst r = the user_id) q1 else q1)
      in if tx_select_raises s then Inl StoreError
         else Inr (cats, map snd (take limit q2)))"

subsection \<open>\<open>persist_results\<close>\<close>

text \<open>The update sent to the store for one merged result.\<close>

definition update_of :: "merged \<Rightarrow> update_req" where
  "update_of r =
     \<lparr> u_id = m_id r,
       u_category = category r,
       u_tags = tags r,
       u_verification_status =
         (if \<not> requires_human_verification r then ''ai_verified''
          else ''required_human_verification'') \<rparr>"

text \<open>
  The loop inside the single \<open>try\<close> block. It returns the store, the categories passed
  to \<open>updated_categories.add\<close> so far, and the exception that ended the loop, if any:
  \<open>execute()\<close> raising, or \<open>add\<close> on an unhashable category.
\<close>

fun persist_loop ::
  "supabase \<Rightarrow> merged list \<Rightarrow> pyval list \<Rightarrow> supabase \<times> pyval list \<times> pyerr option" where
  "persist_loop s [] cats = (s, cats, None)"
| "persist_loop s (r # rs) cats =
     (let u = update_of r
      in if update_raises s u then (s, cats, Some StoreError)
         else (let s' = s\<lparr>updates := updates s @ [u]\<rparr>;
                   cat = category r
               in if py_bool cat \<and> cat \<noteq> PStr ''Uncategorized'' then
                    (if hashable cat then persist_loop s' rs (cats @ [cat])
                     else (s', cats, Some TypeError))
                  else persist_loop s' rs cats))"

record persist_out =
  p_store :: "supabase option"
  p_logged :: "pyerr option"
  p_updated_categories :: "pyval list"
  p_budget_checked :: bool

text \<open>
  \<open>persist_results\<close> returns nothing; the model returns its effects: the store
  afterwards, the error logged by the \<open>except\<close> clause, the categories collected, and
  whether the budget checks after the loop were reached and run.
\<close>

definition persist_results ::
  "supabase option \<Rightarrow> merged list \<Rightarrow> string option \<Rightarrow> string option \<Rightarrow> persist_out" where
  "persist_results sb results user_id user_email =
     (case sb of
        None \<Rightarrow> \<lparr> p_store = None, p_logged = None, p_updated_categories = [],
                  p_budget_checked = False \<rparr>
      | Some s \<Rightarrow>
          if results = [] then
            \<lparr> p_store = Some s, p_logged = None, p_updated_categories = [],
              p_budget_checked = False \<rparr>
          else (case persist_loop s results [] of
                  (s', cats, err) \<Rightarrow>
                    \<lparr> p_store = Some s', p_logged = err, p_updated_categories = cats,
                      p_budget_checked =
                        (err = None \<and> truthy_str user_id \<and> truthy_str user_email) \<rparr>))"

subsection \<open>\<open>run_agent\<close>\<close>

record agent_result =
  count :: nat
  path :: string
  flagged_count :: nat
  results :: "merged list"

definition default_threshold :: rat where
  "default_threshold = 85 / 100"

text \<open>
  \<open>run_agent\<close> runs the graph \<open>fetch_unverified\<close>, \<open>tag_with_gemini\<close>, \<open>router\<close> and one of
  the two terminal nodes (both return the state unchanged), then persists. The oracle
  \<open>call_gemini\<close> is external: it is a parameter, a function of what \<open>build_prompt\<close> puts
  into the prompt (the batch and the category names). \<open>path\<close> is the value \<open>router\<close>
  writes into the state.
\<close>

definition run_agent ::
  "(txn list \<Rightarrow> string list \<Rightarrow> pyval) \<Rightarrow> supabase option \<Rightarrow> nat \<Rightarrow> rat \<Rightarrow>
   string option \<Rightarrow> string option \<Rightarrow> pyerr + (agent_result \<times> persist_out)" where
  "run_agent call_gemini supabase_client batch_size threshold user_id user_email =
     (case supabase_client of
        None \<Rightarrow> Inl AttributeError
      | Some s \<Rightarrow>
          (case fetch_unverified s batch_size user_id of
             Inl e \<Rightarrow> Inl e
           | Inr (cats, txs) \<Rightarrow>
               (case tag_with_gemini threshold txs (call_gemini txs cats) of
                  Inl e \<Rightarrow> Inl e
                | Inr res_all \<Rightarrow>
                    (let flagged = filter requires_human_verification res_all
                     in Inr (\<lparr> count = length flagged,
                               path = router_path threshold res_all,
                               flagged_count = length flagged,
                               results = flagged \<rparr>,
                             persist_results supabase_client res_all user_id user_email)))))"

section \<open>Text and regular expressions\<close>

text \<open>
  Text is 8-bit here: ASCII characters stand for themselves, and the non-ASCII
  characters that occur in the source are given reserved codes: the rupee sign,
  the en dash and the em dash.
\<close>

definition rupee :: char where
  "rupee = CHR 0xA4"

definition en_dash :: char where
  "en_dash = CHR 0x96"

definition em_dash :: char where
  "em_dash = CHR 0x97"

definition backslash :: char where
  "backslash = CHR 0x5C"

definition newline :: char where
  "newline = CHR 0x0A"

definition digits :: "char list" where
  "digits = ''0123456789''"

definition letters :: "char list" where
  "letters = ''ABCDEFGHIJKLMNOPQRSTUVWXYZabcdefghijklmnopqrstuvwxyz''"

text \<open>\<open>str.lower\<close> on one character.\<close>

definition lower_char :: "char \<Rightarrow> char" where
  "lower_char c =
     (case map_of (zip ''ABCDEFGHIJKLMNOPQRSTUVWXYZ'' ''abcdefghijklmnopqrstuvwxyz'') c of
        None \<Rightarrow> c | Some d \<Rightarrow> d)"


text \<open>\<open>sub in s\<close> for strings.\<close>

fun starts_with :: "string \<Rightarrow> string \<Rightarrow> bool" where
  "starts_with s [] = True"
| "starts_with [] (p # ps) = False"
| "starts_with (c # cs) (p # ps) = (c = p \<and> starts_with cs ps)"

fun contains :: "string \<Rightarrow> string \<Rightarrow> bool" where
  "contains [] sub = (sub = [])"
| "contains (c # cs) sub = (starts_with (c # cs) sub \<or> contains cs sub)"

text \<open>\<open>s.split(sep)\<close> for a one-character separator: always at least one piece.\<close>

fun split_on :: "char \<Rightarrow> string \<Rightarrow> string list" where
  "split_on sep [] = [[]]"
| "split_on sep (c # cs) =
     (case split_on sep cs of
        [] \<Rightarrow> [[]]
      | p # ps \<Rightarrow> if c = sep then [] # p # ps else (c # p) # ps)"

text \<open>\<open>s.split()\<close>: the maximal runs of non-whitespace characters.\<close>

fun split_ws_go :: "string \<Rightarrow> string \<Rightarrow> string list" where
  "split_ws_go cur [] = (if cur = [] then [] else [cur])"
| "split_ws_go cur (c # cs) =
     (if is_space c then (if cur = [] then split_ws_go [] cs else cur # split_ws_go [] cs)
      else split_ws_go (cur @ [c]) cs)"

definition split_ws :: "string \<Rightarrow> string list" where
  "split_ws s = split_ws_go [] s"

text \<open>
  \<open>s.replace(old, "")\<close> for a non-empty \<open>old\<close>: the occurrences are removed from left
  to right without overlap. The counter is the number of characters of the current
  occurrence still to be dropped.
\<close>

fun remove_all_go :: "string \<Rightarrow> nat \<Rightarrow> string \<Rightarrow> string" where
  "remove_all_go old k [] = []"
| "remove_all_go old (Suc k) (c # cs) = remove_all_go old k cs"
| "remove_all_go old 0 (c # cs) =
     (if old \<noteq> [] \<and> starts_with (c # cs) old then remove_all_go old (length old - 1) cs
      else c # remove_all_go old 0 cs)"

definition remove_all :: "string \<Rightarrow> string \<Rightarrow> string" where
  "remove_all old s = remove_all_go old 0 s"

subsection \<open>The regular expressions of the source\<close>

text \<open>
  The fragment of Python's \<open>re\<close> that the source uses: literal text, a character class,
  a class under the greedy \<open>*\<close> and \<open>+\<close> or repeated a fixed number of times, sequence,
  ordered alternation and a greedy optional group.
\<close>

datatype regex =
    Lit string
  | Cls "char list"
  | Star "char list"
  | Plus "char list"
  | Rep nat "char list"
  | Seq regex regex
  | Alt regex regex
  | Opt regex

text \<open>Character comparison, under \<open>re.IGNORECASE\<close> when \<open>ic\<close> is set.\<close>

definition ceq :: "bool \<Rightarrow> char \<Rightarrow> char \<Rightarrow> bool" where
  "ceq ic a b = (if ic then lower_char a = lower_char b else a = b)"

definition in_cls :: "bool \<Rightarrow> char list \<Rightarrow> char \<Rightarrow> bool" where
  "in_cls ic cls c = list_ex (\<lambda>d. ceq ic d c) cls"

fun lit_rest :: "bool \<Rightarrow> string \<Rightarrow> string \<Rightarrow> string option" where
  "lit_rest ic [] s = Some s"
| "lit_rest ic (p # ps) [] = None"
| "lit_rest ic (p # ps) (c # cs) = (if ceq ic p c then lit_rest ic ps cs else None)"

text \<open>The texts left after a greedy run: the longest run first, as backtracking tries them.\<close>

fun star_rests :: "(char \<Rightarrow> bool) \<Rightarrow> string \<Rightarrow> string list" where
  "star_rests P [] = [[]]"
| "star_rests P (c # cs) = (if P c then star_rests P cs @ [c # cs] else [c # cs])"

fun rep_rest :: "(char \<Rightarrow> bool) \<Rightarrow> nat \<Rightarrow> string \<Rightarrow> string list" where
  "rep_rest P 0 s = [s]"
| "rep_rest P (Suc n) [] = []"
| "rep_rest P (Suc n) (c # cs) = (if P c then rep_rest P n cs else [])"

text \<open>
  \<open>rmatch ic r s\<close> lists what is left of \<open>s\<close> after each way of matching \<open>r\<close> at its start,
  in the order in which the backtracking matcher finds them: the head is the match
  Python reports.
\<close>

fun rmatch :: "bool \<Rightarrow> regex \<Rightarrow> string \<Rightarrow> string list" where
  "rmatch ic (Lit l) s = (case lit_rest ic l s of None \<Rightarrow> [] | Some r \<Rightarrow> [r])"
| "rmatch ic (Cls cls) s = rep_rest (in_cls ic cls) 1 s"
| "rmatch ic (Star cls) s = star_rests (in_cls ic cls) s"
| "rmatch ic (Plus cls) s =
     (case s of [] \<Rightarrow> [] | c # cs \<Rightarrow> if in_cls ic cls c then star_rests (in_cls ic cls) cs else [])"
| "rmatch ic (Rep n cls) s = rep_rest (in_cls ic cls) n s"
| "rmatch ic (Seq a b) s = concat (map (rmatch ic b) (rmatch ic a s))"
| "rmatch ic (Alt a b) s = rmatch ic a s @ rmatch ic b s"
| "rmatch ic (Opt a) s = rmatch ic a s @ [s]"

text \<open>\<open>re.search\<close>: the text of the leftmost match (\<open>group(0)\<close>), if any.\<close>

fun re_search :: "bool \<Rightarrow> regex \<Rightarrow> string \<Rightarrow> string option" where
  "re_search ic r [] = (case rmatch ic r [] of [] \<Rightarrow> None | rest # _ \<Rightarrow> Some [])"
| "re_search ic r (c # cs) =
     (case rmatch ic r (c # cs) of
        [] \<Rightarrow> re_search ic r cs
      | rest # _ \<Rightarrow> Some (take (length (c # cs) - length rest) (c # cs)))"

text \<open>
  \<open>re.sub(r, repl, s)\<close> for a pattern that does not match the empty string (all the
  patterns substituted in the source are such): each leftmost match is replaced and the
  scan goes on after it. The counter is the number of matched characters still to be
  skipped.
\<close>

fun re_sub_go :: "bool \<Rightarrow> regex \<Rightarrow> string \<Rightarrow> nat \<Rightarrow> string \<Rightarrow> string" where
  "re_sub_go ic r repl k [] = []"
| "re_sub_go ic r repl (Suc k) (c # cs) = re_sub_go ic r repl k cs"
| "re_sub_go ic r repl 0 (c # cs) =
     (case rmatch ic r (c # cs) of
        [] \<Rightarrow> c # re_sub_go ic r repl 0 cs
      | rest # _ \<Rightarrow>
          (let m = length (c # cs) - length rest
           in if m = 0 then c # re_sub_go ic r repl 0 cs
              else repl @ re_sub_go ic r repl (m - 1) cs))"

definition re_sub :: "bool \<Rightarrow> regex \<Rightarrow> string \<Rightarrow> string \<Rightarrow> string" where
  "re_sub ic r repl s = re_sub_go ic r repl 0 s"

text \<open>\<open>re.sub("^" + r, repl, s)\<close>: only a match at the start of the text is replaced.\<close>

definition re_sub_anchored :: "bool \<Rightarrow> regex \<Rightarrow> string \<Rightarrow> string \<Rightarrow> string" where
  "re_sub_anchored ic r repl s = (case rmatch ic r s of [] \<Rightarrow> s | rest # _ \<Rightarrow> repl @ rest)"

section \<open>The record materializer (\<open>helper.py\<close>)\<close>

text \<open>
  A raw tuple as the extractors build it and \<open>to_records\<close> reads it with \<open>row.get\<close>:
  \<open>None\<close> stands for an absent key or a \<open>None\<close> value; the amount may be any value.
\<close>

record raw_txn =
  rw_date :: "string option"
  rw_transaction_details :: "string option"
  rw_amount :: pyval
  rw_type :: "string option"





text \<open>
  \<open>clean_details\<close>. The three patterns are written in the source as raw strings with
  doubled backslashes, \<open>r"...\\s*"\<close>: in each, \<open>\\\<close> is an escaped backslash and \<open>s*\<close>
  (or \<open>s+\<close>) a run of the letter s.
\<close>

definition re_boilerplate :: regex where
  "re_boilerplate =
     Seq (Alt (Seq (Lit ''Paid'') (Seq (Lit [backslash]) (Seq (Star ''s'') (Lit ''to''))))
         (Alt (Lit ''Paidto'')
         (Alt (Seq (Lit ''Received'') (Seq (Lit [backslash]) (Seq (Star ''s'') (Lit ''from''))))
              (Lit ''Receivedfrom''))))
         (Seq (Lit [backslash]) (Star ''s''))"

definition re_dashes :: regex where
  "re_dashes = Seq (Plus [CHR ''-'', en_dash, em_dash]) (Seq (Lit [backslash]) (Star ''s''))"

definition re_backslash_s :: regex where
  "re_backslash_s = Seq (Lit [backslash]) (Plus ''s'')"

definition clean_details :: "string option \<Rightarrow> string" where
  "clean_details details =
     (if \<not> truthy_str details then []
      else (let s = the details;
                s = re_sub_anchored True re_boilerplate [] s;
                s = re_sub_anchored False re_dashes [] s;
                s = strip (re_sub False re_backslash_s '' '' s)
            in s))"







section \<open>The statement extractors (\<open>pdf_processor.py\<close>)\<close>

text \<open>
  A page as \<open>pdfplumber\<close> presents it: \<open>extract_text()\<close> gives a string or \<open>None\<close>,
  \<open>extract_tables()\<close> a list of tables, a table being a list of rows of cells, each a
  string or \<open>None\<close>.
\<close>

type_synonym cell = "string option"

type_synonym table = "cell list list"

record page =
  page_text :: "string option"
  page_tables :: "table list"

text \<open>\<open>str(c)\<close> on a cell.\<close>

definition str_cell :: "cell \<Rightarrow> string" where
  "str_cell c = (case c of None \<Rightarrow> ''None'' | Some s \<Rightarrow> s)"

text \<open>\<open>parse_amount\<close>: \<open>re.sub(r'[^\d.-]', '', s)\<close> keeps the digits, the dots and the hyphens.\<close>

definition parse_amount :: "string \<Rightarrow> rat" where
  "parse_amount amount_str =
     (if amount_str = [] then 0
      else (let cleaned = filter (\<lambda>c. is_digit c \<or> c = CHR ''.'' \<or> c = CHR ''-'') amount_str
            in case float_of_str cleaned of None \<Rightarrow> 0 | Some x \<Rightarrow> x))"

subsection \<open>\<open>extract_gpay_statement\<close>\<close>

text \<open>\<open>(\d{2}[A-Za-z]{3},\d{4})\<close>\<close>

definition gpay_date_pattern :: regex where
  "gpay_date_pattern = Seq (Rep 2 digits) (Seq (Rep 3 letters) (Seq (Lit '','') (Rep 4 digits)))"

text \<open>
  The loop over the lines of one page, with \<open>current_date\<close> and the list of
  transactions as state. \<open>parts[1].split()[0]\<close> raises \<open>IndexError\<close> when nothing but
  whitespace follows the rupee sign.
\<close>

fun gpay_lines :: "string list \<Rightarrow> string option \<Rightarrow> raw_txn list \<Rightarrow> pyerr + raw_txn list" where
  "gpay_lines [] current_date transactions = Inr transactions"
| "gpay_lines (line # ls) current_date0 transactions =
     (let current_date = (case re_search False gpay_date_pattern line of
                            Some m \<Rightarrow> Some m | None \<Rightarrow> current_date0)
      in if rupee \<in> set line \<and> truthy_str current_date then
           (let parts = split_on rupee line
            in if length parts \<ge> 2 then
                 (let details = strip (parts ! 0);
                      details = strip (remove_all (the current_date) details);
                      details = strip (re_sub False gpay_date_pattern [] details)
                  in case split_ws (parts ! 1) of
                       [] \<Rightarrow> Inl IndexError
                     | amount_str # _ \<Rightarrow>
                         gpay_lines ls current_date
                           (transactions @
                            [\<lparr> rw_date = current_date,
                               rw_transaction_details = Some details,
                               rw_amount = PFloat (parse_amount amount_str),
                               rw_type = Some (if contains details ''Received''
                                               then ''Credit'' else ''Debit'') \<rparr>]))
               else gpay_lines ls current_date transactions)
         else gpay_lines ls current_date transactions)"

fun gpay_pages :: "page list \<Rightarrow> raw_txn list \<Rightarrow> pyerr + raw_txn list" where
  "gpay_pages [] transactions = Inr transactions"
| "gpay_pages (p # ps) transactions =
     (if \<not> truthy_str (page_text p) then gpay_pages ps transactions
      else (case gpay_lines (split_on newline (the (page_text p))) None transactions of
              Inl e \<Rightarrow> Inl e
            | Inr transactions' \<Rightarrow> gpay_pages ps transactions'))"

definition extract_gpay_statement :: "page list \<Rightarrow> pyerr + raw_txn list" where
  "extract_gpay_statement pdf = gpay_pages pdf []"

subsection \<open>\<open>extract_sbi_statement\<close>\<close>

text \<open>\<open>[\d,]+(?:\.\d+)?\s*[CD]\<close>\<close>

definition sbi_amount_pattern :: regex where
  "sbi_amount_pattern =
     Seq (Plus (digits @ '','')) (Seq (Opt (Seq (Lit ''.'') (Plus digits)))
       (Seq (Star spaces) (Cls ''CD'')))"

definition is_sbi_transactions_table :: "table \<Rightarrow> bool" where
  "is_sbi_transactions_table table =
     (if table = [] \<or> length table < 2 then False
      else (let header = hd table;
                header_texts = map (\<lambda>c. if truthy_str c then str_cell c else []) header;
                has_date = list_ex (\<lambda>h. contains h ''Date'') header_texts;
                has_amount_header = list_ex (\<lambda>h. contains h ''Amount'') header_texts
            in if \<not> (has_date \<and> has_amount_header) then False
               else list_ex (\<lambda>row. length row \<ge> 3 \<and> truthy_str (row ! 2) \<and>
                               re_search False sbi_amount_pattern (str_cell (row ! 2)) \<noteq> None)
                            (tl table)))"

text \<open>\<open>table[0] and 'Date' in str(table[0][0])\<close>, for a non-empty table.\<close>

definition first_header_cell_has_date :: "table \<Rightarrow> bool" where
  "first_header_cell_has_date table =
     (table \<noteq> [] \<and> hd table \<noteq> [] \<and> contains (str_cell (hd (hd table))) ''Date'')"

text \<open>The transactions of one table row, whose cells may hold several lines.\<close>

definition sbi_row :: "cell list \<Rightarrow> raw_txn list" where
  "sbi_row row =
     (if length row \<ge> 3 \<and> truthy_str (row ! 0) \<and> truthy_str (row ! 1) \<and> truthy_str (row ! 2) then
        (let dates = split_on newline (str_cell (row ! 0));
             details = split_on newline (str_cell (row ! 1));
             amounts = split_on newline (str_cell (row ! 2));
             count = min (length dates) (min (length details) (length amounts))
         in concat (map (\<lambda>i.
              (let amt_raw = amounts ! i;
                   t_type = (if CHR ''C'' \<in> set amt_raw then ''Credit''
                             else if CHR ''D'' \<in> set amt_raw then ''Debit'' else ''Debit'');
                   amt_val = parse_amount amt_raw
               in if amt_val > 0 then
                    [\<lparr> rw_date = Some (dates ! i),
                       rw_transaction_details = Some (details ! i),
                       rw_amount = PFloat amt_val,
                       rw_type = Some t_type \<rparr>]
                  else [])) [0..<count]))
      else [])"

text \<open>
  The body of the loop over the tables of a page. In the source the loop over the rows
  is indented under \<open>if table[0] and 'Date' in str(table[0][0]):\<close>, after
  \<open>start_idx = 1\<close>, so it runs only when that test succeeds.
\<close>

definition sbi_table :: "table \<Rightarrow> raw_txn list" where
  "sbi_table table =
     (if table = [] then []
      else if \<not> is_sbi_transactions_table table then []
      else if first_header_cell_has_date table then concat (map sbi_row (drop 1 table))
      else [])"

definition extract_sbi_statement :: "page list \<Rightarrow> raw_txn list" where
  "extract_sbi_statement pdf = concat (map (\<lambda>p. concat (map sbi_table (page_tables p))) pdf)"

section \<open>Example data\<close>

text \<open>A stored transaction, an oracle result for it, and the merged entry they give.\<close>

definition sample_txn :: "int \<Rightarrow> txn" where
  "sample_txn n =
     \<lparr> tx_id = PInt n, tx_date = PStr ''2025-11-01'',
       tx_transaction_details = PStr ''PaidtoBlinkit'',
       tx_transaction_type = PStr ''Debit'', tx_amount = PFloat 425,
       tx_statement_type = PStr ''UPI'',
       tx_verification_status = PStr ''unverified'' \<rparr>"

definition sample_reply :: "int \<Rightarrow> rat \<Rightarrow> bool \<Rightarrow> pyval" where
  "sample_reply n c h =
     PDict [(''id'', PInt n), (''category'', PStr ''Groceries''),
            (''tags'', PList [PStr ''essential'']), (''confidence'', PFloat c),
            (''requires_human_verification'', PBool h)]"

definition sample_merged :: "int \<Rightarrow> rat \<Rightarrow> bool \<Rightarrow> merged" where
  "sample_merged n c h =
     \<lparr> m_id = PInt n, m_date = PStr ''2025-11-01'',
       m_transaction_details = PStr ''PaidtoBlinkit'',
       m_amount = PFloat 425, m_transaction_type = PStr ''Debit'',
       category = PStr ''Groceries'', tags = [PStr ''essential''], confidence = c,
       verification_status = (if h then ''required_human_verification'' else ''ai_verified''),
       requires_human_verification = h \<rparr>"

text \<open>
  A store holding two unverified transactions of one user, the same store rejecting
  every update of transaction 1, and an oracle that answers for both transactions,
  with confidence \<open>c\<close> for the second.
\<close>

definition sample_store :: supabase where
  "sample_store =
     \<lparr> tx_table = [(''u1'', sample_txn 1), (''u1'', sample_txn 2)],
       cat_table = [], cat_select_raises = False, tx_select_raises = False,
       update_raises = (\<lambda>u. False), updates = [] \<rparr>"

definition failing_store :: supabase where
  "failing_store = sample_store\<lparr>update_raises := (\<lambda>u. u_id u = PInt 1)\<rparr>"

definition sample_gemini :: "rat \<Rightarrow> txn list \<Rightarrow> string list \<Rightarrow> pyval" where
  "sample_gemini c txs cats = PList [sample_reply 1 (90/100) False, sample_reply 2 c False]"




text \<open>
  A GPay page whose only transaction line carries the amount token \<open>0\<close>, and one where
  the token is \<open>abc\<close>.
\<close>

definition gpay_zero_page :: page where
  "gpay_zero_page =
     \<lparr> page_text = Some (''01Nov,2025 PaidtoBlinkit '' @ [rupee] @ ''0''), page_tables = [] \<rparr>"

definition gpay_bad_page :: page where
  "gpay_bad_page =
     \<lparr> page_text = Some (''01Nov,2025 PaidtoBlinkit '' @ [rupee] @ ''abc''), page_tables = [] \<rparr>"

text \<open>
  A two-row SBI table with the given first two header cells, an \<open>Amount\<close> header and one
  credit of 1,014.00.
\<close>

definition sbi_sample_table :: "string \<Rightarrow> string \<Rightarrow> table" where
  "sbi_sample_table h0 h1 =
     [[Some h0, Some h1, Some ''Amount''],
      [Some ''16 Nov 25'', Some ''CARD CASHBACK'', Some ''1,014.00 C'']]"

section \<open>Properties of the classification orchestrator\<close>

subsection \<open>Auxiliary facts\<close>


lemma merge_loop_length:
  "merge_loop th rm txs = Inr ms \<Longrightarrow> length ms = length txs"
  by (induction txs arbitrary: ms) (auto split: sum.splits)

lemma merge_loop_nth:
  "merge_loop th rm txs = Inr ms \<Longrightarrow> i < length txs \<Longrightarrow> merge_one th rm (txs ! i) = Inr (ms ! i)"
proof (induction txs arbitrary: ms i)
  case Nil
  then show ?case by simp
next
  case (Cons t ts)
  then show ?case by (cases i) (auto split: sum.splits)
qed

lemma build_results_map_nonempty:
  "build_results_map os acc = Inr rm \<Longrightarrow> \<forall>kv\<in>set acc. snd kv \<noteq> [] \<Longrightarrow> \<forall>kv\<in>set rm. snd kv \<noteq> []"
proof (induction os acc arbitrary: rm rule: build_results_map.induct)
  case (1 acc)
  then show ?case by simp
next
  case (2 d os acc)
  have "map_of d ''id'' \<noteq> None \<Longrightarrow> d \<noteq> []" by auto
  with 2 show ?case by (fastforce split: option.splits if_splits)
qed simp_all

lemma results_map_get_in:
  "results_map_get rm rid = Inr (Some d) \<Longrightarrow> \<exists>k. (k, d) \<in> set rm"
  unfolding results_map_get_def
  by (auto split: if_splits simp: find_Some_iff) (metis nth_mem prod.collapse)

lemma router_iff:
  "router th res = ''behavioral_analysis'' \<longleftrightarrow>
     res \<noteq> [] \<and> (\<forall>r\<in>set res. verification_status r = ''ai_verified'') \<and> (\<forall>r\<in>set res. confidence r \<ge> th)"
  by (auto simp: router_def router_path_def all_high_def list_all_iff)

lemma status_if_ai [simp]:
  "((if P then ''ai_verified'' else ''required_human_verification'') = ''ai_verified'') = P"
  by simp

lemma status_if_rhv [simp]:
  "((if P then ''ai_verified'' else ''required_human_verification'') = ''required_human_verification'') = (\<not> P)"
  by simp

lemma matched_status:
  "matched_result th t d = Inr m \<Longrightarrow> py_float (dict_get d ''confidence'' (PFloat 0)) = Inr c \<Longrightarrow>
   confidence m = c \<and>
   (verification_status m = ''ai_verified'' \<longleftrightarrow> c \<ge> th \<and> \<not> py_bool (dict_get d ''requires_human_verification'' (PBool False))) \<and>
   (verification_status m \<noteq> ''ai_verified'' \<longleftrightarrow> verification_status m = ''required_human_verification'') \<and>
   requires_human_verification m = (verification_status m = ''required_human_verification'')"
  by (auto simp: matched_result_def Let_def split: sum.splits)

lemma sample_merge_two:
  "tag_with_gemini (85/100) [sample_txn 1, sample_txn 2]
     (PList [sample_reply 1 (90/100) False, sample_reply 2 (90/100) False])
   = Inr [sample_merged 1 (90/100) False, sample_merged 2 (90/100) False]"
  by (simp add: tag_with_gemini_def sample_txn_def sample_reply_def sample_merged_def
      merge_one_def results_map_get_def key_eq_def matched_result_def dict_get_def missing_result_def)

lemma merge_one_inv:
  "merge_one th rm t = Inr m \<Longrightarrow>
     requires_human_verification m = (verification_status m = ''required_human_verification'') \<and>
     (verification_status m = ''ai_verified'' \<or> verification_status m = ''required_human_verification'')"
  by (auto simp: merge_one_def missing_result_def matched_result_def Let_def
      split: sum.splits option.splits if_splits)

lemma merge_loop_inv:
  "merge_loop th rm txs = Inr ms \<Longrightarrow> r \<in> set ms \<Longrightarrow>
     requires_human_verification r = (verification_status r = ''required_human_verification'') \<and>
     (verification_status r = ''ai_verified'' \<or> verification_status r = ''required_human_verification'')"
proof (induction txs arbitrary: ms)
  case Nil
  then show ?case by simp
next
  case (Cons t ts)
  then obtain m ms' where m: "merge_one th rm t = Inr m" and ms': "merge_loop th rm ts = Inr ms'"
    and eq: "ms = m # ms'"
    by (auto split: sum.splits)
  show ?case
  proof (cases "r = m")
    case True
    then show ?thesis using merge_one_inv [OF m] by simp
  next
    case False
    then have "r \<in> set ms'" using Cons.prems(2) eq by simp
    then show ?thesis using Cons.IH [OF ms'] by simp
  qed
qed

lemma tag_with_gemini_inv:
  "tag_with_gemini th txs out = Inr ms \<Longrightarrow> r \<in> set ms \<Longrightarrow>
     requires_human_verification r = (verification_status r = ''required_human_verification'') \<and>
     (verification_status r = ''ai_verified'' \<or> verification_status r = ''required_human_verification'')"
  unfolding tag_with_gemini_def
  by (auto split: if_splits sum.splits dest: merge_loop_inv)

text \<open>
  Claim C1. The routing step takes the \<open>behavioral_analysis\<close> branch exactly when the
  merged result list is non-empty, every entry's decision is \<open>ai_verified\<close> and every
  entry's confidence reaches the threshold; otherwise, and for the empty list, it takes
  \<open>mark_needs_verification\<close>. A merged batch in which every entry has confidence 0.90
  and no human-verification flag, at threshold 0.85, goes to \<open>behavioral_analysis\<close>, and
  lowering any single entry's confidence to 0.50 sends the whole batch to
  \<open>mark_needs_verification\<close>.
\<close>

theorem router_all_or_nothing:
  "(router th res = ''behavioral_analysis'' \<longleftrightarrow>
      res \<noteq> [] \<and> (\<forall>r\<in>set res. verification_status r = ''ai_verified'')
        \<and> (\<forall>r\<in>set res. th \<le> confidence r))
   \<and> (router th res \<noteq> ''behavioral_analysis'' \<longrightarrow> router th res = ''mark_needs_verification'')
   \<and> router th [] = ''mark_needs_verification''
   \<and> (tag_with_gemini (85/100) txs out = Inr res \<and> res \<noteq> []
        \<and> (\<forall>r\<in>set res. confidence r = 90/100 \<and> \<not> requires_human_verification r)
      \<longrightarrow> router (85/100) res = ''behavioral_analysis''
          \<and> (\<forall>i<length res. router (85/100) (res[i := (res ! i)\<lparr>confidence := 50/100\<rparr>])
                = ''mark_needs_verification''))"
proof (intro conjI impI)
  show "router th res = ''behavioral_analysis'' \<longleftrightarrow>
      res \<noteq> [] \<and> (\<forall>r\<in>set res. verification_status r = ''ai_verified'')
        \<and> (\<forall>r\<in>set res. th \<le> confidence r)"
    by (rule router_iff)
  show "router th res = ''mark_needs_verification''" if "router th res \<noteq> ''behavioral_analysis''"
    using that by (simp add: router_def split: if_splits)
  show "router th [] = ''mark_needs_verification''"
    by (simp add: router_def)
next
  assume h: "tag_with_gemini (85/100) txs out = Inr res \<and> res \<noteq> []
        \<and> (\<forall>r\<in>set res. confidence r = 90/100 \<and> \<not> requires_human_verification r)"
  have "\<forall>r\<in>set res. verification_status r = ''ai_verified''"
    using h tag_with_gemini_inv [of "85/100" txs out res] by blast
  moreover have "\<forall>r\<in>set res. (85/100::rat) \<le> confidence r"
  proof
    fix r assume "r \<in> set res"
    with h have "confidence r = 90/100" by blast
    then show "(85/100::rat) \<le> confidence r" by simp
  qed
  ultimately show "router (85/100) res = ''behavioral_analysis''"
    using h router_iff [of "85/100" res] by blast
next
  assume h: "tag_with_gemini (85/100) txs out = Inr res \<and> res \<noteq> []
        \<and> (\<forall>r\<in>set res. confidence r = 90/100 \<and> \<not> requires_human_verification r)"
  show "\<forall>i<length res. router (85/100) (res[i := (res ! i)\<lparr>confidence := 50/100\<rparr>])
                = ''mark_needs_verification''"
  proof (intro allI impI)
    fix i assume i: "i < length res"
    let ?res' = "res[i := (res ! i)\<lparr>confidence := 50/100\<rparr>]"
    have "(res ! i)\<lparr>confidence := 50/100\<rparr> \<in> set ?res'"
      using i by (simp add: set_update_memI)
    then have "\<not> (\<forall>r\<in>set ?res'. (85/100::rat) \<le> confidence r)"
      by force
    then have "router (85/100) ?res' \<noteq> ''behavioral_analysis''"
      using router_iff [of "85/100" ?res'] by blast
    then show "router (85/100) ?res' = ''mark_needs_verification''"
      by (simp add: router_def split: if_splits)
  qed
qed

theorem router_all_or_nothing_witness:
  "router (85/100) [sample_merged 1 (90/100) False, sample_merged 2 (90/100) False] = ''behavioral_analysis''
   \<and> router (85/100) [sample_merged 1 (90/100) False, (sample_merged 2 (90/100) False)\<lparr>confidence := 50/100\<rparr>]
       = ''mark_needs_verification''"
proof -
  let ?res = "[sample_merged 1 (90/100) False, sample_merged 2 (90/100) False]"
  have h: "tag_with_gemini (85/100) [sample_txn 1, sample_txn 2]
     (PList [sample_reply 1 (90/100) False, sample_reply 2 (90/100) False]) = Inr ?res \<and> ?res \<noteq> []
        \<and> (\<forall>r\<in>set ?res. confidence r = 90/100 \<and> \<not> requires_human_verification r)"
    using sample_merge_two by (simp add: sample_merged_def)
  from router_all_or_nothing [of "85/100" ?res "[sample_txn 1, sample_txn 2]"
      "PList [sample_reply 1 (90/100) False, sample_reply 2 (90/100) False]"] h
  have a: "router (85/100) ?res = ''behavioral_analysis''"
    and b: "\<forall>i<length ?res. router (85/100) (?res[i := (?res ! i)\<lparr>confidence := 50/100\<rparr>])
                = ''mark_needs_verification''"
    by blast+
  have "(1::nat) < length ?res" by simp
  with b have "router (85/100) (?res[1 := (?res ! 1)\<lparr>confidence := 50/100\<rparr>]) = ''mark_needs_verification''"
    by blast
  with a show ?thesis by simp
qed

lemma tag_with_gemini_unfold:
  "txs \<noteq> [] \<Longrightarrow> iter_out out = Inr os \<Longrightarrow> build_results_map os [] = Inr rm \<Longrightarrow>
     tag_with_gemini th txs out = merge_loop th rm txs"
  by (simp add: tag_with_gemini_def)

text \<open>
  Claim C2. For an oracle result matched to a transaction in the merge step, the recorded
  status is \<open>ai_verified\<close> exactly when the result's confidence (as \<open>float()\<close> reads it)
  reaches the threshold and its \<open>requires_human_verification\<close> value is false; otherwise
  it is \<open>required_human_verification\<close>, in particular whenever the oracle sets the flag,
  whatever the confidence. The threshold is an argument; its default is 0.85.
\<close>

theorem merge_status_decision:
  assumes "iter_out out = Inr os" and "build_results_map os [] = Inr rm"
    and "tag_with_gemini threshold txs out = Inr ms"
    and "i < length txs"
    and "results_map_get rm (tx_id (txs ! i)) = Inr (Some ores)"
  shows "\<exists>c. py_float (dict_get ores ''confidence'' (PFloat 0)) = Inr c \<and> confidence (ms ! i) = c \<and>
     (verification_status (ms ! i) = ''ai_verified'' \<longleftrightarrow>
        c \<ge> threshold \<and> \<not> py_bool (dict_get ores ''requires_human_verification'' (PBool False))) \<and>
     (verification_status (ms ! i) \<noteq> ''ai_verified'' \<longrightarrow>
        verification_status (ms ! i) = ''required_human_verification'') \<and>
     (py_bool (dict_get ores ''requires_human_verification'' (PBool False)) \<longrightarrow>
        verification_status (ms ! i) = ''required_human_verification'') \<and>
     default_threshold = 85 / 100"
proof -
  from assms(4) have ne: "txs \<noteq> []" by auto
  from assms(3) have ml: "merge_loop threshold rm txs = Inr ms"
    using tag_with_gemini_unfold [OF ne assms(1,2)] by simp
  have one: "merge_one threshold rm (txs ! i) = Inr (ms ! i)"
    by (rule merge_loop_nth [OF ml assms(4)])
  obtain k where "(k, ores) \<in> set rm"
    using results_map_get_in [OF assms(5)] by blast
  then have "ores \<noteq> []"
    using build_results_map_nonempty [OF assms(2)] by force
  with one assms(5) have m: "matched_result threshold (txs ! i) ores = Inr (ms ! i)"
    by (simp add: merge_one_def)
  then obtain c where c: "py_float (dict_get ores ''confidence'' (PFloat 0)) = Inr c"
    by (auto simp: matched_result_def split: sum.splits)
  from matched_status [OF m c] c show ?thesis
    by (auto simp: default_threshold_def)
qed

theorem merge_status_decision_witness:
  "verification_status ([sample_merged 1 (99/100) True] ! 0) = ''required_human_verification''"
proof -
  let ?out = "PList [sample_reply 1 (99/100) True]"
  let ?os = "[sample_reply 1 (99/100) True]"
  let ?d = "[(''id'', PInt 1), (''category'', PStr ''Groceries''),
            (''tags'', PList [PStr ''essential'']), (''confidence'', PFloat (99/100)),
            (''requires_human_verification'', PBool True)]"
  let ?rm = "[(PInt 1, ?d)]"
  have 1: "iter_out ?out = Inr ?os" by simp
  have 2: "build_results_map ?os [] = Inr ?rm" by (simp add: sample_reply_def)
  have 3: "tag_with_gemini (85/100) [sample_txn 1] ?out = Inr [sample_merged 1 (99/100) True]"
    by (simp add: tag_with_gemini_def sample_txn_def sample_reply_def sample_merged_def
      merge_one_def results_map_get_def key_eq_def matched_result_def dict_get_def)
  have 4: "(0::nat) < length [sample_txn 1]" by simp
  have 5: "results_map_get ?rm (tx_id ([sample_txn 1] ! 0)) = Inr (Some ?d)"
    by (simp add: results_map_get_def key_eq_def sample_txn_def)
  have 6: "py_bool (dict_get ?d ''requires_human_verification'' (PBool False))"
    by (simp add: dict_get_def)
  from merge_status_decision [OF 1 2 3 4 5] 6 show ?thesis
    by blast
qed


text \<open>
  Claim C3. The merge is not total over oracle replies: for the one-transaction batch with
  id 1 and the reply \<open>[{"id": 1, "category": "Groceries", "confidence": null}]\<close>, the
  conversion \<open>float(None)\<close> raises \<open>TypeError\<close> and no merged list is produced.
\<close>

theorem merge_raises_on_null_confidence:
  "tag_with_gemini (85/100) [sample_txn 1]
     (PList [PDict [(''id'', PInt 1), (''category'', PStr ''Groceries''), (''confidence'', PNone)]])
   = Inl TypeError"
  by (simp add: tag_with_gemini_def sample_txn_def merge_one_def results_map_get_def key_eq_def
      matched_result_def dict_get_def)


lemma merge_one_missing:
  "results_map_get rm (tx_id t) = Inr None \<Longrightarrow> merge_one th rm t = Inr (missing_result t)"
  by (simp add: merge_one_def)

lemma merge_one_id:
  "merge_one th rm t = Inr m \<Longrightarrow> m_id m = tx_id t"
  by (auto simp: merge_one_def missing_result_def matched_result_def Let_def
      split: sum.splits option.splits if_splits)


lemma build_results_map_total:
  "\<forall>d. PDict d \<in> set os \<longrightarrow> (\<forall>k. map_of d ''id'' = Some k \<longrightarrow> hashable k) \<Longrightarrow>
   \<exists>rm. build_results_map os acc = Inr rm \<and>
        set rm \<subseteq> set acc \<union> {(k, d). PDict d \<in> set os \<and> map_of d ''id'' = Some k}"
proof (induction os acc rule: build_results_map.induct)
  case (1 acc)
  then show ?case by simp
next
  case (2 d os acc)
  show ?case
  proof (cases "map_of d ''id''")
    case None
    with 2 show ?thesis by fastforce
  next
    case (Some k)
    with 2 have hk: "hashable k" by simp
    from 2(2)[OF Some hk] 2(3) obtain rm where
      "build_results_map os ((k, d) # acc) = Inr rm"
      "set rm \<subseteq> set ((k, d) # acc) \<union> {(k, d). PDict d \<in> set os \<and> map_of d ''id'' = Some k}"
      by auto
    with Some hk show ?thesis by auto
  qed
qed auto

lemma merge_loop_total:
  "\<forall>t\<in>set txs. hashable (tx_id t) \<Longrightarrow>
   \<forall>kv\<in>set rm. float_ok (dict_get (snd kv) ''confidence'' (PFloat 0)) \<Longrightarrow>
   \<exists>ms. merge_loop th rm txs = Inr ms"
proof (induction txs)
  case Nil
  then show ?case by simp
next
  case (Cons t ts)
  then obtain ms where ms: "merge_loop th rm ts = Inr ms" by auto
  have "\<exists>m. merge_one th rm t = Inr m"
  proof (cases "results_map_get rm (tx_id t)")
    case (Inl e)
    with Cons.prems(1) show ?thesis by (simp add: results_map_get_def)
  next
    case (Inr r)
    show ?thesis
    proof (cases r)
      case None
      with Inr show ?thesis by (simp add: merge_one_def)
    next
      case (Some d)
      with Inr obtain k where "(k, d) \<in> set rm" using results_map_get_in by blast
      with Cons.prems(2) have "float_ok (dict_get d ''confidence'' (PFloat 0))" by force
      with Inr Some show ?thesis
        by (auto simp: merge_one_def matched_result_def float_ok_def Let_def split: sum.splits)
    qed
  qed
  with ms show ?case by auto
qed


lemma persist_loop_fail_at:
  "i < length rs \<Longrightarrow> update_raises s (update_of (rs ! i)) \<Longrightarrow>
   \<forall>j<i. \<not> update_raises s (update_of (rs ! j)) \<and> hashable (category (rs ! j)) \<Longrightarrow>
   \<exists>cats'. persist_loop s rs cats =
      (s\<lparr>updates := updates s @ map update_of (take i rs)\<rparr>, cats', Some StoreError)"
proof (induction rs arbitrary: s cats i)
  case Nil
  then show ?case by simp
next
  case (Cons r rs)
  show ?case
  proof (cases i)
    case 0
    with Cons.prems show ?thesis by (simp add: Let_def)
  next
    case (Suc i')
    let ?s1 = "s\<lparr>updates := updates s @ [update_of r]\<rparr>"
    from Cons.prems(3) Suc have r0: "\<not> update_raises s (update_of r)" "hashable (category r)"
      by auto
    have a: "i' < length rs" using Cons.prems(1) Suc by simp
    have b: "update_raises ?s1 (update_of (rs ! i'))" using Cons.prems(2) Suc by simp
    have c: "\<forall>j<i'. \<not> update_raises ?s1 (update_of (rs ! j)) \<and> hashable (category (rs ! j))"
      using Cons.prems(3) Suc by auto
    from Cons.IH [OF a b c] have
      "\<And>cats1. \<exists>cats'. persist_loop ?s1 rs cats1 =
          (s\<lparr>updates := updates s @ map update_of (take i (r # rs))\<rparr>, cats', Some StoreError)"
      using Suc by simp
    then show ?thesis using r0 by (simp add: Let_def)
  qed
qed

lemma persist_loop_all:
  "\<forall>r\<in>set rs. \<not> update_raises s (update_of r) \<and> hashable (category r) \<Longrightarrow>
   \<exists>cats'. persist_loop s rs cats =
      (s\<lparr>updates := updates s @ map update_of rs\<rparr>, cats', None)"
proof (induction rs arbitrary: s cats)
  case Nil
  then show ?case by simp
next
  case (Cons r rs)
  let ?s1 = "s\<lparr>updates := updates s @ [update_of r]\<rparr>"
  have "\<forall>r\<in>set rs. \<not> update_raises ?s1 (update_of r) \<and> hashable (category r)"
    using Cons.prems by simp
  from Cons.IH [OF this] have
    "\<And>cats1. \<exists>cats'. persist_loop ?s1 rs cats1 =
        (s\<lparr>updates := updates s @ map update_of (r # rs)\<rparr>, cats', None)"
    by simp
  then show ?case using Cons.prems by (simp add: Let_def)
qed

text \<open>
  Claim C6, as amended. When the update of the result at position \<open>i\<close> is the first one
  the store rejects, \<open>persist_results\<close> does not raise: it logs the error, leaves the
  updates of the results before \<open>i\<close> in the store, and processes neither the results
  after \<open>i\<close> nor the budget checks.
\<close>

theorem persist_results_stops_at_failure:
  assumes "i < length rs" and "update_raises s (update_of (rs ! i))"
    and "\<forall>j<i. \<not> update_raises s (update_of (rs ! j)) \<and> hashable (category (rs ! j))"
  shows "p_store (persist_results (Some s) rs user_id user_email)
           = Some (s\<lparr>updates := updates s @ map update_of (take i rs)\<rparr>)
       \<and> p_logged (persist_results (Some s) rs user_id user_email) = Some StoreError
       \<and> \<not> p_budget_checked (persist_results (Some s) rs user_id user_email)"
proof -
  from assms(1) have ne: "rs \<noteq> []" by auto
  from persist_loop_fail_at [OF assms, of "[]"] obtain cats' where
    "persist_loop s rs [] = (s\<lparr>updates := updates s @ map update_of (take i rs)\<rparr>, cats', Some StoreError)"
    by blast
  with ne show ?thesis by (simp add: persist_results_def)
qed

theorem persist_results_stops_at_failure_witness:
  "p_store (persist_results (Some failing_store)
       [sample_merged 2 (90/100) False, sample_merged 1 (90/100) False, sample_merged 3 (90/100) False] None None)
     = Some (failing_store\<lparr>updates := [update_of (sample_merged 2 (90/100) False)]\<rparr>)"
proof -
  let ?rs = "[sample_merged 2 (90/100) False, sample_merged 1 (90/100) False, sample_merged 3 (90/100) False]"
  have 1: "(1::nat) < length ?rs" by simp
  have 2: "update_raises failing_store (update_of (?rs ! 1))"
    by (simp add: failing_store_def update_of_def sample_merged_def)
  have 3: "\<forall>j<1. \<not> update_raises failing_store (update_of (?rs ! j)) \<and> hashable (category (?rs ! j))"
    by (simp add: failing_store_def update_of_def sample_merged_def)
  from persist_results_stops_at_failure [OF 1 2 3, of None None] show ?thesis
    by (simp add: failing_store_def sample_store_def)
qed

text \<open>
  Counterexample to claim C6 as stated: with two results of which only the first is
  rejected by the store, the second is not persisted; the store is left unchanged.
\<close>

theorem persist_results_abort_counterexample:
  "update_raises failing_store (update_of (sample_merged 1 (90/100) False))
   \<and> \<not> update_raises failing_store (update_of (sample_merged 2 (90/100) False))
   \<and> p_store (persist_results (Some failing_store)
        [sample_merged 1 (90/100) False, sample_merged 2 (90/100) False] None None)
      = Some failing_store
   \<and> updates failing_store = []"
  by (simp add: failing_store_def sample_store_def update_of_def sample_merged_def
      persist_results_def Let_def)



lemma sample_run:
  "run_agent (sample_gemini c) (Some sample_store) 100 (85/100) (Some ''u1'') None
     = Inr (\<lparr> count = (if c \<ge> 85/100 then 0 else 1), path = (if c \<ge> 85/100 then ''A'' else ''B''),
          flagged_count = (if c \<ge> 85/100 then 0 else 1),
          results = (if c \<ge> 85/100 then [] else [sample_merged 2 c True]) \<rparr>,
          persist_results (Some sample_store)
            [sample_merged 1 (90/100) False, sample_merged 2 c (\<not> c \<ge> 85/100)] (Some ''u1'') None)"
  by (simp add: run_agent_def fetch_unverified_def fetch_categories_def truthy_str_def sample_store_def
      sample_gemini_def tag_with_gemini_def sample_txn_def sample_reply_def sample_merged_def
      merge_one_def results_map_get_def key_eq_def matched_result_def dict_get_def
      router_path_def all_high_def Let_def)

text \<open>
  Claim C10. When \<open>run_agent\<close> returns, \<open>count\<close> and \<open>flagged_count\<close> are both the number
  of merged results whose \<open>requires_human_verification\<close> flag is set, and \<open>results\<close> is the
  list of exactly those entries; a batch without flagged entries gives \<open>count = 0\<close> and
  an empty list. All merged results are handed to \<open>persist_results\<close>.
\<close>

theorem run_agent_reports_flagged:
  assumes "run_agent call_gemini (Some s) batch_size threshold user_id user_email = Inr (ret, po)"
  shows "\<exists>cats txs res_all.
           fetch_unverified s batch_size user_id = Inr (cats, txs)
         \<and> tag_with_gemini threshold txs (call_gemini txs cats) = Inr res_all
         \<and> count ret = length (filter requires_human_verification res_all)
         \<and> flagged_count ret = length (filter requires_human_verification res_all)
         \<and> results ret = filter requires_human_verification res_all
         \<and> ((\<forall>r\<in>set res_all. \<not> requires_human_verification r) \<longrightarrow>
               count ret = 0 \<and> results ret = [])
         \<and> po = persist_results (Some s) res_all user_id user_email"
  using assms
  by (auto simp: run_agent_def Let_def split: sum.splits prod.splits)

theorem run_agent_reports_flagged_witness:
  "(\<exists>ret po. run_agent (sample_gemini (90/100)) (Some sample_store) 100 (85/100) (Some ''u1'') None
        = Inr (ret, po) \<and> count ret = 0 \<and> flagged_count ret = 0 \<and> results ret = [])
   \<and> (\<exists>ret po. run_agent (sample_gemini (50/100)) (Some sample_store) 100 (85/100) (Some ''u1'') None
        = Inr (ret, po) \<and> count ret = 1 \<and> flagged_count ret = 1
          \<and> results ret = [sample_merged 2 (50/100) True])"
proof -
  obtain ret1 po1 where 1:
    "run_agent (sample_gemini (90/100)) (Some sample_store) 100 (85/100) (Some ''u1'') None = Inr (ret1, po1)"
    and r1: "ret1 = \<lparr> count = 0, path = ''A'', flagged_count = 0, results = [] \<rparr>"
    using sample_run [of "90/100"] by simp
  obtain ret2 po2 where 2:
    "run_agent (sample_gemini (50/100)) (Some sample_store) 100 (85/100) (Some ''u1'') None = Inr (ret2, po2)"
    and r2: "ret2 = \<lparr> count = 1, path = ''B'', flagged_count = 1,
                       results = [sample_merged 2 (50/100) True] \<rparr>"
    using sample_run [of "50/100"] by simp
  from run_agent_reports_flagged [OF 1] r1
  have a: "count ret1 = 0 \<and> flagged_count ret1 = 0 \<and> results ret1 = []"
    by simp
  from run_agent_reports_flagged [OF 2] r2
  have b: "count ret2 = 1 \<and> flagged_count ret2 = 1 \<and> results ret2 = [sample_merged 2 (50/100) True]"
    by simp
  from 1 2 a b show ?thesis by blast
qed

text \<open>
  On replies whose dict entries have hashable ids and confidences that \<open>float()\<close>
  accepts, the merge returns one entry per transaction, in batch order; a transaction
  without a matching result gets the missing-result entry.
\<close>

lemma tag_with_gemini_total_on_wellformed:
  assumes "\<forall>t\<in>set txs. hashable (tx_id t)"
    and "\<forall>d. PDict d \<in> set os \<longrightarrow>
           (\<forall>k. map_of d ''id'' = Some k \<longrightarrow> hashable k)
         \<and> float_ok (dict_get d ''confidence'' (PFloat 0))"
  shows "\<exists>ms. tag_with_gemini th txs (PList os) = Inr ms \<and> length ms = length txs
           \<and> (\<forall>i<length txs. m_id (ms ! i) = tx_id (txs ! i))"
proof (cases "txs = []")
  case True
  then show ?thesis by (simp add: tag_with_gemini_def)
next
  case False
  from assms(2) have "\<forall>d. PDict d \<in> set os \<longrightarrow> (\<forall>k. map_of d ''id'' = Some k \<longrightarrow> hashable k)"
    by blast
  from build_results_map_total [OF this, of "[]"] obtain rm where
    rm: "build_results_map os [] = Inr rm"
    and sub: "set rm \<subseteq> set [] \<union> {(k, d). PDict d \<in> set os \<and> map_of d ''id'' = Some k}"
    by blast
  have "\<forall>kv\<in>set rm. float_ok (dict_get (snd kv) ''confidence'' (PFloat 0))"
    using sub assms(2) by auto
  from merge_loop_total [OF assms(1) this, of th] obtain ms where ms: "merge_loop th rm txs = Inr ms"
    by blast
  have "\<forall>i<length txs. m_id (ms ! i) = tx_id (txs ! i)"
    using merge_loop_nth [OF ms] merge_one_id by blast
  with ms rm False merge_loop_length [OF ms] show ?thesis
    by (simp add: tag_with_gemini_def)
qed

lemma tag_with_gemini_missing:
  assumes "iter_out out = Inr os" and "build_results_map os [] = Inr rm"
    and "tag_with_gemini th txs out = Inr ms" and "i < length txs"
    and "results_map_get rm (tx_id (txs ! i)) = Inr None"
  shows "ms ! i = missing_result (txs ! i)"
proof -
  from assms(4) have ne: "txs \<noteq> []" by auto
  from assms(3) have ml: "merge_loop th rm txs = Inr ms"
    using tag_with_gemini_unfold [OF ne assms(1,2)] by simp
  from merge_loop_nth [OF ml assms(4)] merge_one_missing [OF assms(5), of th]
  show ?thesis by simp
qed

section \<open>Properties of the record materializer\<close>








text \<open>
  Claim C7. With the patterns as written, \<open>clean_details\<close> strips neither \<open>Paid to\<close> nor
  \<open>Paidto\<close>, keeps a leading dash run and keeps runs of spaces; the boilerplate is
  removed only when a backslash follows it.
\<close>

theorem clean_details_keeps_boilerplate:
  "clean_details (Some ''Paid to  Blinkit'') = ''Paid to  Blinkit''
   \<and> clean_details (Some ''PaidtoBlinkit'') = ''PaidtoBlinkit''
   \<and> clean_details (Some ''-- Amazon   Pay'') = ''-- Amazon   Pay''
   \<and> clean_details (Some (''Paidto'' @ [backslash] @ ''ssBlinkit'')) = ''Blinkit''"
  by code_simp

section \<open>Properties of the statement extractors\<close>

text \<open>
  Claim C5. The GPay extractor has no test on the amount: the line
  \<open>01Nov,2025 PaidtoBlinkit\<close> followed by the rupee sign and \<open>0\<close> (or \<open>abc\<close>) is emitted as a
  transaction with amount 0.0. (\<open>parse_amount("425.00")\<close> is 425.0.)
\<close>

theorem gpay_emits_zero_amount:
  "extract_gpay_statement [gpay_zero_page]
     = Inr [\<lparr> rw_date = Some ''01Nov,2025'', rw_transaction_details = Some ''PaidtoBlinkit'',
              rw_amount = PFloat 0, rw_type = Some ''Debit'' \<rparr>]
   \<and> extract_gpay_statement [gpay_bad_page]
     = Inr [\<lparr> rw_date = Some ''01Nov,2025'', rw_transaction_details = Some ''PaidtoBlinkit'',
              rw_amount = PFloat 0, rw_type = Some ''Debit'' \<rparr>]
   \<and> parse_amount ''425.00'' = 425"
  by code_simp

lemma sbi_sample_eval:
  "is_sbi_transactions_table (sbi_sample_table ''Sr'' ''Date'')
   \<and> \<not> first_header_cell_has_date (sbi_sample_table ''Sr'' ''Date'')
   \<and> sbi_table (sbi_sample_table ''Date'' ''Transaction Details'')
       = [\<lparr> rw_date = Some ''16 Nov 25'', rw_transaction_details = Some ''CARD CASHBACK'',
            rw_amount = PFloat 1014, rw_type = Some ''Credit'' \<rparr>]"
  by code_simp

lemma sbi_table_filter:
  "concat (map sbi_table ts) = concat (map sbi_table (filter first_header_cell_has_date ts))"
  by (induction ts) (auto simp: sbi_table_def)

text \<open>The SBI extractor guards every emission with \<open>amt_val > 0\<close>.\<close>

lemma sbi_row_positive:
  "r \<in> set (sbi_row row) \<Longrightarrow> \<exists>x. rw_amount r = PFloat x \<and> 0 < x"
  by (auto simp: sbi_row_def Let_def split: if_splits)

lemma extract_sbi_positive:
  "r \<in> set (extract_sbi_statement pdf) \<Longrightarrow> \<exists>x. rw_amount r = PFloat x \<and> 0 < x"
  by (auto simp: extract_sbi_statement_def sbi_table_def split: if_splits dest: sbi_row_positive in_set_dropD)

text \<open>
  Claim C9. A table that passes \<open>is_sbi_transactions_table\<close> but whose first header cell
  does not contain \<open>Date\<close> contributes no transaction; the extractor's output is that of
  the document with such tables removed, and every emitted transaction comes from a
  validated table whose first header cell contains \<open>Date\<close>.
\<close>

theorem sbi_requires_date_in_first_header_cell:
  "(is_sbi_transactions_table table \<and> \<not> first_header_cell_has_date table \<longrightarrow> sbi_table table = [])
   \<and> extract_sbi_statement pdf
       = extract_sbi_statement
           (map (\<lambda>p. p\<lparr>page_tables := filter first_header_cell_has_date (page_tables p)\<rparr>) pdf)
   \<and> (\<forall>r\<in>set (extract_sbi_statement pdf).
         \<exists>p\<in>set pdf. \<exists>t\<in>set (page_tables p).
            first_header_cell_has_date t \<and> is_sbi_transactions_table t \<and> r \<in> set (sbi_table t))"
proof (intro conjI)
  show "is_sbi_transactions_table table \<and> \<not> first_header_cell_has_date table \<longrightarrow> sbi_table table = []"
    by (simp add: sbi_table_def)
  show "extract_sbi_statement pdf
       = extract_sbi_statement
           (map (\<lambda>p. p\<lparr>page_tables := filter first_header_cell_has_date (page_tables p)\<rparr>) pdf)"
    unfolding extract_sbi_statement_def
    by (induction pdf) (simp_all add: sbi_table_filter [symmetric])
  show "\<forall>r\<in>set (extract_sbi_statement pdf).
         \<exists>p\<in>set pdf. \<exists>t\<in>set (page_tables p).
            first_header_cell_has_date t \<and> is_sbi_transactions_table t \<and> r \<in> set (sbi_table t)"
  proof
    fix r assume "r \<in> set (extract_sbi_statement pdf)"
    then obtain p t where p: "p \<in> set pdf" and t: "t \<in> set (page_tables p)" and r: "r \<in> set (sbi_table t)"
      by (auto simp: extract_sbi_statement_def)
    from r have "first_header_cell_has_date t \<and> is_sbi_transactions_table t"
      by (auto simp: sbi_table_def split: if_splits)
    with p t r show "\<exists>p\<in>set pdf. \<exists>t\<in>set (page_tables p).
            first_header_cell_has_date t \<and> is_sbi_transactions_table t \<and> r \<in> set (sbi_table t)"
      by blast
  qed
qed

theorem sbi_requires_date_in_first_header_cell_witness:
  "is_sbi_transactions_table (sbi_sample_table ''Sr'' ''Date'')
   \<and> sbi_table (sbi_sample_table ''Sr'' ''Date'') = []
   \<and> extract_sbi_statement [\<lparr> page_text = None,
        page_tables = [sbi_sample_table ''Sr'' ''Date'', sbi_sample_table ''Date'' ''Transaction Details''] \<rparr>]
      = [\<lparr> rw_date = Some ''16 Nov 25'', rw_transaction_details = Some ''CARD CASHBACK'',
            rw_amount = PFloat 1014, rw_type = Some ''Credit'' \<rparr>]"
proof -
  let ?t = "sbi_sample_table ''Sr'' ''Date''"
  let ?u = "sbi_sample_table ''Date'' ''Transaction Details''"
  let ?pdf = "[\<lparr> page_text = None, page_tables = [?t, ?u] \<rparr>]"
  have h: "is_sbi_transactions_table ?t \<and> \<not> first_header_cell_has_date ?t"
    using sbi_sample_eval by simp
  note w = sbi_requires_date_in_first_header_cell [of ?t ?pdf]
  from w h have a: "sbi_table ?t = []" by blast
  have u: "first_header_cell_has_date ?u"
    by code_simp
  from w have "extract_sbi_statement ?pdf =
      extract_sbi_statement (map (\<lambda>p. p\<lparr>page_tables := filter first_header_cell_has_date (page_tables p)\<rparr>) ?pdf)"
    by blast
  also have "\<dots> = sbi_table ?u"
    using h u by (simp add: extract_sbi_statement_def)
  finally have "extract_sbi_statement ?pdf = sbi_table ?u" .
  with h a sbi_sample_eval show ?thesis by simp
qed

end
